theory Spec2Isabelle
  imports Complex_Main "HOL-Library.Option_ord" "HOL-Library.Multiset"
begin

section \<open>EchoVid backend: the data model\<close>

text \<open>
  \<^verbatim>\<open>server.js\<close> holds three variants of the same Express application: lines 1-240
  (\<open>V1\<close>), lines 241-413 (\<open>V2\<close>, the one that hashes passwords with bcrypt) and lines
  414-626 (\<open>V3\<close>). Handlers that differ between the variants take the variant as their
  first argument; \<^verbatim>\<open>auth\<close> and \<^verbatim>\<open>/getVideos\<close> are the same text in all three, and
  \<^verbatim>\<open>/getComments\<close> and \<^verbatim>\<open>/getRatings\<close> exist in \<open>V1\<close> only.

  Strings are lists of 8-bit characters, read as the code points U+0000 to U+00FF; a
  string with a code point above U+00FF is outside the model. Request body fields are
  taken at the type the handlers bind them with (\<^verbatim>\<open>sql.NVarChar\<close>: a string,
  \<^verbatim>\<open>sql.Int\<close>: an integer, checked against the 32-bit range where the request supplies it).
  Time is a number of seconds; \<^verbatim>\<open>GETDATE()\<close> and the clock of the token library read
  the same \<open>now\<close>. A column that an \<^verbatim>\<open>INSERT\<close> does not mention is \<^verbatim>\<open>NULL\<close> (\<open>None\<close>).
\<close>

type_synonym datetime = nat

datatype variant = V1 | V2 | V3

record user =
  UserID :: int
  Name :: string
  Email :: string
  PasswordHash :: string
  Role :: string
  CreatedAt :: "datetime option"

record video =
  VideoID :: int
  Title :: string
  Publisher :: string
  Producer :: string
  Genre :: string
  AgeRating :: string
  BlobURL :: string
  CreatorID :: int
  UploadedAt :: "datetime option"

record comment =
  c_VideoID :: int
  c_UserID :: int
  CommentText :: string
  c_CreatedAt :: "datetime option"

record rating =
  r_VideoID :: int
  r_UserID :: int
  Rating :: int
  r_CreatedAt :: "datetime option"

record database =
  Users :: "user list"
  Videos :: "video list"
  Comments :: "comment list"
  Ratings :: "rating list"

record blob =
  content :: string
  blobContentType :: "string option"

text \<open>
  The effects a request has on the two stores, in the order in which they happen.
\<close>

datatype effect = BlobWrite string | InsertVideo string

record world =
  db :: database
  blobs :: "string \<rightharpoonup> blob"
  journal :: "effect list"

text \<open>The payload of a token, as \<^verbatim>\<open>jwt.verify\<close> returns it.\<close>

record payload =
  p_id :: int
  p_role :: string
  iat :: datetime
  exp :: datetime

text \<open>
  What the source uses and does not define: the token library (\<^verbatim>\<open>jsonwebtoken\<close>),
  \<^verbatim>\<open>bcryptjs\<close>, base64 decoding, the locator a blob client computes for an object
  name (\<^verbatim>\<open>blockBlobClient.url\<close>), the message of the \<^verbatim>\<open>mssql\<close> driver for a value
  outside the range of \<^verbatim>\<open>sql.Int\<close> (\<open>range_error d p\<close>, for the parameter named \<open>p\<close>),
  and the string comparisons that the relational store evaluates:
  \<open>email_ci_eq d a b\<close> is \<^verbatim>\<open>a COLLATE Latin1_General_CI_AS = b\<close>, and \<open>password_eq d\<close> and
  \<open>email_eq d\<close> are \<^verbatim>\<open>=\<close> on the columns \<^verbatim>\<open>Users.PasswordHash\<close> and \<^verbatim>\<open>Users.Email\<close> under
  the collation of their declaration, which the \<^verbatim>\<open>CREATE TABLE\<close> statements (not in the
  source) fix.
  \<open>jwt_sign d i r key ttl now\<close> is \<^verbatim>\<open>jwt.sign({id: i, role: r}, key, {expiresIn: ttl})\<close>
  at time \<open>now\<close>; \<open>jwt_verify d t key now\<close> is \<open>None\<close> where \<^verbatim>\<open>jwt.verify\<close> throws.
\<close>

record deps =
  jwt_sign :: "int \<Rightarrow> string \<Rightarrow> string \<Rightarrow> nat \<Rightarrow> datetime \<Rightarrow> string"
  jwt_verify :: "string \<Rightarrow> string \<Rightarrow> datetime \<Rightarrow> payload option"
  bcrypt_hash :: "string \<Rightarrow> string"
  bcrypt_compare :: "string \<Rightarrow> string \<Rightarrow> bool"
  from_base64 :: "string \<Rightarrow> string"
  blob_url :: "string \<Rightarrow> string"
  range_error :: "string \<Rightarrow> string"
  email_ci_eq :: "string \<Rightarrow> string \<Rightarrow> bool"
  password_eq :: "string \<Rightarrow> string \<Rightarrow> bool"
  email_eq :: "string \<Rightarrow> string \<Rightarrow> bool"

text \<open>
  The failures of the two external services during one request: \<open>db_fault f k\<close> is the
  error of the \<open>k\<close>-th round trip to the relational store (a failure of \<^verbatim>\<open>getPool\<close>
  shows at the first one), \<open>blob_fault f\<close> the error of \<^verbatim>\<open>uploadData\<close>.
\<close>

record faults =
  db_fault :: "nat \<Rightarrow> string option"
  blob_fault :: "string option"

definition no_faults :: faults where
  "no_faults = \<lparr>db_fault = (\<lambda>k. None), blob_fault = None\<rparr>"

text \<open>HTTP responses: the status and the JSON body.\<close>

datatype body =
  Message string
  | Error string
  | TokenRole string string
  | MessageUrl string string
  | VideoRows "video list"
  | CommentRows "(string \<times> string \<times> datetime option) list"
  | RatingRow "rat option" nat

type_synonym response = "nat \<times> body"

definition JWT_SECRET :: string where
  "JWT_SECRET = ''supersecretkey''"

section \<open>Strings: JavaScript\<close>

text \<open>
  \<^verbatim>\<open>toLowerCase\<close> on the code points up to U+00FF: the upper-case letters are A to Z
  (65-90) and the accented capitals U+00C0 to U+00DE without the multiplication sign
  U+00D7 (192-214, 216-222); each has its lower-case letter 32 places above.
\<close>

definition lower_char :: "char \<Rightarrow> char" where
  "lower_char c =
     (let n = (of_char c :: nat)
      in if (65 \<le> n \<and> n \<le> 90) \<or> (192 \<le> n \<and> n \<le> 214) \<or> (216 \<le> n \<and> n \<le> 222)
         then char_of (n + 32) else c)"

definition toLowerCase :: "string \<Rightarrow> string" where
  "toLowerCase s = map lower_char s"



text \<open>\<^verbatim>\<open>s.split(c)\<close> for a one-character separator, and \<^verbatim>\<open>xs[i]\<close> (\<open>None\<close> is undefined).\<close>

fun split_on :: "char \<Rightarrow> string \<Rightarrow> string list" where
  "split_on c [] = [[]]"
| "split_on c (x # xs) =
     (if x = c then [] # split_on c xs
      else (case split_on c xs of [] \<Rightarrow> [[x]] | p # ps \<Rightarrow> (x # p) # ps))"

definition index :: "'a list \<Rightarrow> nat \<Rightarrow> 'a option" where
  "index xs i = (if i < length xs then Some (xs ! i) else None)"

section \<open>The relational store\<close>

text \<open>An identity column: the next value after the largest one in use.\<close>

definition next_identity :: "int list \<Rightarrow> int" where
  "next_identity ids = fold max ids 0 + 1"



text \<open>
  A value bound as \<^verbatim>\<open>sql.Int\<close>: the driver accepts the 32-bit signed integers and
  rejects the request with an error for any other value.
\<close>

definition INT_MIN :: int where
  "INT_MIN = - 2147483648"

definition INT_MAX :: int where
  "INT_MAX = 2147483647"

definition sql_Int :: "deps \<Rightarrow> string \<Rightarrow> int \<Rightarrow> string + int" where
  "sql_Int d p v = (if INT_MIN \<le> v \<and> v \<le> INT_MAX then Inr v else Inl (range_error d p))"

text \<open>
  Modelled from the spec: the \<^verbatim>\<open>AVG\<close> aggregate of the query of line 230. The relational
  store computes it, and neither the store nor the declaration of the \<^verbatim>\<open>Ratings\<close> table
  is in the source. Section 3 of the specification: a rating is an integer, and
  "aggregation is a simple average over all rows": the sum of the ratings divided by
  their number. Over no rows there is nothing to average and the aggregate is \<^verbatim>\<open>NULL\<close>.
\<close>

definition sql_avg :: "int list \<Rightarrow> rat option" where
  "sql_avg xs = (if xs = [] then None else Some (of_int (sum_list xs) / of_nat (length xs)))"

section \<open>The handlers\<close>

subsection \<open>Signup (lines 53-80, 278-293, 463-494)\<close>

definition insert_user :: "string \<Rightarrow> string \<Rightarrow> string \<Rightarrow> string \<Rightarrow> datetime option \<Rightarrow> database \<Rightarrow> database" where
  "insert_user name email hash role created dbs =
     dbs\<lparr>Users := Users dbs @
       [\<lparr>UserID = next_identity (map UserID (Users dbs)), Name = name, Email = email,
         PasswordHash = hash, Role = role, CreatedAt = created\<rparr>]\<rparr>"

definition signup :: "variant \<Rightarrow> deps \<Rightarrow> faults \<Rightarrow> datetime \<Rightarrow> string \<Rightarrow> string \<Rightarrow> string \<Rightarrow> database \<Rightarrow> response \<times> database" where
  "signup v d f now name email password dbs =
     (if v = V2 then
        (case db_fault f 0 of
           Some e \<Rightarrow> ((500, Error e), dbs)
         | None \<Rightarrow>
             ((200, Message ''Consumer registered successfully''),
              insert_user name email (bcrypt_hash d password) ''Consumer'' None dbs))
      else
        (case db_fault f 0 of
           Some e \<Rightarrow> ((500, Error e), dbs)
         | None \<Rightarrow>
             if length (filter (\<lambda>u. email_ci_eq d (Email u) (toLowerCase email)) (Users dbs)) > 0
             then ((400, Error ''Email already registered''), dbs)
             else
               (case db_fault f 1 of
                  Some e \<Rightarrow> ((500, Error e), dbs)
                | None \<Rightarrow>
                    ((200, Message ''Consumer registered successfully''),
                     insert_user name (toLowerCase email) password ''Consumer'' (Some now) dbs))))"

subsection \<open>Login (lines 83-106, 296-315, 497-526)\<close>




subsection \<open>The access guard (lines 109-125, 318-334, 529-545)\<close>

datatype guard_result = Respond response | Next payload

definition auth :: "deps \<Rightarrow> string option \<Rightarrow> datetime \<Rightarrow> string option \<Rightarrow> guard_result" where
  "auth d requiredRole now header =
     (case header of
        None \<Rightarrow> Respond (401, Error ''No token'')
      | Some h \<Rightarrow>
          if h = [] then Respond (401, Error ''No token'')
          else
            (case index (split_on (CHR '' '') h) 1 of
               None \<Rightarrow> Respond (401, Error ''Invalid token'')
             | Some token \<Rightarrow>
                 (case jwt_verify d token JWT_SECRET now of
                    None \<Rightarrow> Respond (401, Error ''Invalid token'')
                  | Some decoded \<Rightarrow>
                      (case requiredRole of
                         None \<Rightarrow> Next decoded
                       | Some r \<Rightarrow>
                           if r \<noteq> [] \<and> p_role decoded \<noteq> r
                           then Respond (403, Error ''Forbidden'')
                           else Next decoded))))"

subsection \<open>Upload (lines 128-160, 337-366, 548-576)\<close>

record upload_body =
  title :: string
  publisher :: string
  producer :: string
  genre :: string
  ageRating :: string
  fileName :: string
  fileContent :: string

definition uploadData :: "variant \<Rightarrow> deps \<Rightarrow> upload_body \<Rightarrow> world \<Rightarrow> world" where
  "uploadData v d rq w =
     w\<lparr>blobs := (blobs w)(fileName rq \<mapsto>
          \<lparr>content = from_base64 d (fileContent rq),
           blobContentType = (if v = V1 then Some ''video/mp4'' else None)\<rparr>),
       journal := journal w @ [BlobWrite (fileName rq)]\<rparr>"

definition insert_video :: "variant \<Rightarrow> datetime \<Rightarrow> payload \<Rightarrow> upload_body \<Rightarrow> string \<Rightarrow> world \<Rightarrow> world" where
  "insert_video v now usr rq blobUrl w =
     w\<lparr>db := (db w)\<lparr>Videos := Videos (db w) @
          [\<lparr>VideoID = next_identity (map VideoID (Videos (db w))), Title = title rq,
            Publisher = publisher rq, Producer = producer rq, Genre = genre rq,
            AgeRating = ageRating rq, BlobURL = blobUrl, CreatorID = p_id usr,
            UploadedAt = (if v = V1 then Some now else None)\<rparr>]\<rparr>,
       journal := journal w @ [InsertVideo blobUrl]\<rparr>"

definition upload :: "variant \<Rightarrow> deps \<Rightarrow> faults \<Rightarrow> datetime \<Rightarrow> payload \<Rightarrow> upload_body \<Rightarrow> world \<Rightarrow> response \<times> world" where
  "upload v d f now usr rq w =
     (case blob_fault f of
        Some e \<Rightarrow> ((500, Error e), w)
      | None \<Rightarrow>
          (let w1 = uploadData v d rq w;
               blobUrl = blob_url d (fileName rq)
           in case db_fault f 0 of
                Some e \<Rightarrow> ((500, Error e), w1)
              | None \<Rightarrow>
                  ((200, MessageUrl ''Video uploaded successfully'' blobUrl),
                   insert_video v now usr rq blobUrl w1)))"

text \<open>The route: \<^verbatim>\<open>app.post("/upload", auth("Creator"), handler)\<close>.\<close>

definition post_upload :: "variant \<Rightarrow> deps \<Rightarrow> faults \<Rightarrow> datetime \<Rightarrow> string option \<Rightarrow> upload_body \<Rightarrow> world \<Rightarrow> response \<times> world" where
  "post_upload v d f now header rq w =
     (case auth d (Some ''Creator'') now header of
        Respond r \<Rightarrow> (r, w)
      | Next usr \<Rightarrow> upload v d f now usr rq w)"

subsection \<open>Listings, comments and ratings\<close>


text \<open>
  \<^verbatim>\<open>/comment\<close> and \<^verbatim>\<open>/rate\<close> bind \<^verbatim>\<open>videoId\<close> and \<^verbatim>\<open>rating\<close> from the request body as
  \<^verbatim>\<open>sql.Int\<close>. The identity \<^verbatim>\<open>req.user.id\<close> comes from a verified token, which login issues
  from the \<^verbatim>\<open>UserID\<close> column.
\<close>

definition comment :: "variant \<Rightarrow> deps \<Rightarrow> faults \<Rightarrow> datetime \<Rightarrow> payload \<Rightarrow> int \<Rightarrow> string \<Rightarrow> database \<Rightarrow> response \<times> database" where
  "comment v d f now usr videoId text dbs =
     (case db_fault f 0 of
        Some e \<Rightarrow> ((500, Error e), dbs)
      | None \<Rightarrow>
          (case sql_Int d ''VideoID'' videoId of
             Inl e \<Rightarrow> ((500, Error e), dbs)
           | Inr vid \<Rightarrow>
               ((200, Message ''Comment added''),
                dbs\<lparr>Comments := Comments dbs @
                  [\<lparr>c_VideoID = vid, c_UserID = p_id usr, CommentText = text,
                    c_CreatedAt = (if v = V1 then Some now else None)\<rparr>]\<rparr>)))"



definition rate :: "variant \<Rightarrow> deps \<Rightarrow> faults \<Rightarrow> datetime \<Rightarrow> payload \<Rightarrow> int \<Rightarrow> int \<Rightarrow> database \<Rightarrow> response \<times> database" where
  "rate v d f now usr videoId stars dbs =
     (case db_fault f 0 of
        Some e \<Rightarrow> ((500, Error e), dbs)
      | None \<Rightarrow>
          (case sql_Int d ''VideoID'' videoId of
             Inl e \<Rightarrow> ((500, Error e), dbs)
           | Inr vid \<Rightarrow>
               (case sql_Int d ''Rating'' stars of
                  Inl e \<Rightarrow> ((500, Error e), dbs)
                | Inr n \<Rightarrow>
                    ((200, Message ''Rating submitted''),
                     dbs\<lparr>Ratings := Ratings dbs @
                       [\<lparr>r_VideoID = vid, r_UserID = p_id usr, Rating = n,
                         r_CreatedAt = (if v = V1 then Some now else None)\<rparr>]\<rparr>))))"

definition ratings_of :: "int \<Rightarrow> database \<Rightarrow> int list" where
  "ratings_of videoId dbs = map Rating (filter (\<lambda>r. r_VideoID r = videoId) (Ratings dbs))"

text \<open>
  \<^verbatim>\<open>/getRatings\<close> sends the one row of the aggregate query: \<^verbatim>\<open>AVG(Rating)\<close> and
  \<^verbatim>\<open>COUNT(*)\<close> over the rating rows of the video.
\<close>

definition getRatings :: "deps \<Rightarrow> faults \<Rightarrow> int \<Rightarrow> database \<Rightarrow> response" where
  "getRatings d f videoId dbs =
     (case db_fault f 0 of
        Some e \<Rightarrow> (500, Error e)
      | None \<Rightarrow>
          (case sql_Int d ''VideoID'' videoId of
             Inl e \<Rightarrow> (500, Error e)
           | Inr vid \<Rightarrow>
               (200, RatingRow (sql_avg (ratings_of vid dbs)) (length (ratings_of vid dbs)))))"


section \<open>Concrete inputs\<close>

text \<open>
  An instance of the external functions and a few states of the two stores, on which the
  handlers are evaluated below. In the instance a token is the role followed by the
  key, a bcrypt hash is a prefix followed by the password, the comparison under the
  case-insensitive collation is equality of the lower-cased strings, and the comparisons
  of the two columns are plain equality (\<open>example_deps\<close>) or, for the email column,
  equality of the lower-cased strings (\<open>example_deps_ci\<close>).
\<close>

definition example_deps :: deps where
  "example_deps =
     \<lparr>jwt_sign = (\<lambda>i r key ttl now. r @ ''.'' @ key),
      jwt_verify = (\<lambda>t key now.
         if t = ''Creator.'' @ key then Some \<lparr>p_id = 1, p_role = ''Creator'', iat = 0, exp = 3600\<rparr>
         else if t = ''Consumer.'' @ key then Some \<lparr>p_id = 2, p_role = ''Consumer'', iat = 0, exp = 3600\<rparr>
         else None),
      bcrypt_hash = (\<lambda>p. ''$2a$10$'' @ p),
      bcrypt_compare = (\<lambda>p h. h = ''$2a$10$'' @ p),
      from_base64 = (\<lambda>s. s),
      blob_url = (\<lambda>n. ''https://echovid.blob.core.windows.net/videos/'' @ n),
      range_error = (\<lambda>p. ''Validation failed for parameter '' @ p),
      email_ci_eq = (\<lambda>a b. toLowerCase a = toLowerCase b),
      password_eq = (=),
      email_eq = (=)\<rparr>"


definition empty_db :: database where
  "empty_db = \<lparr>Users = [], Videos = [], Comments = [], Ratings = []\<rparr>"

definition empty_world :: world where
  "empty_world = \<lparr>db = empty_db, blobs = Map.empty, journal = []\<rparr>"

definition db_down :: faults where
  "db_down = \<lparr>db_fault = (\<lambda>k. Some ''Connection lost''), blob_fault = None\<rparr>"

definition blob_down :: faults where
  "blob_down = \<lparr>db_fault = (\<lambda>k. None), blob_fault = Some ''Storage unavailable''\<rparr>"

definition example_creator :: payload where
  "example_creator = \<lparr>p_id = 1, p_role = ''Creator'', iat = 0, exp = 3600\<rparr>"

definition example_upload :: upload_body where
  "example_upload =
     \<lparr>title = ''Clip'', publisher = ''P'', producer = ''Q'', genre = ''Drama'', ageRating = ''PG'',
      fileName = ''clip.mp4'', fileContent = ''AAAA''\<rparr>"






definition example_ratings :: database where
  "example_ratings = empty_db\<lparr>Ratings :=
     [\<lparr>r_VideoID = 1, r_UserID = 2, Rating = 3, r_CreatedAt = Some 10\<rparr>,
      \<lparr>r_VideoID = 1, r_UserID = 2, Rating = 5, r_CreatedAt = Some 20\<rparr>,
      \<lparr>r_VideoID = 2, r_UserID = 2, Rating = 3, r_CreatedAt = Some 30\<rparr>,
      \<lparr>r_VideoID = 2, r_UserID = 3, Rating = 4, r_CreatedAt = Some 40\<rparr>]\<rparr>"


definition example_consumer :: payload where
  "example_consumer = \<lparr>p_id = 2, p_role = ''Consumer'', iat = 0, exp = 3600\<rparr>"

section \<open>Properties of the string and ordering functions\<close>



















section \<open>Upload: the two writes\<close>

text \<open>
  C1, as the code has it: when the blob write succeeds and the insert of the \<^verbatim>\<open>Videos\<close>
  row fails, \<^verbatim>\<open>/upload\<close> answers 500 with the error's message, leaves the relational store
  as it was, and leaves the blob it has just written in the blob store. The only effect
  of the request is the blob write: no handler of any variant deletes a blob.
\<close>

theorem upload_metadata_failure_keeps_blob:
  assumes "blob_fault f = None" and "db_fault f 0 = Some e"
  shows "fst (upload v d f now usr rq w) = (500, Error e)
    \<and> db (snd (upload v d f now usr rq w)) = db w
    \<and> blobs (snd (upload v d f now usr rq w)) (fileName rq)
        = Some \<lparr>content = from_base64 d (fileContent rq),
                blobContentType = (if v = V1 then Some ''video/mp4'' else None)\<rparr>
    \<and> journal (snd (upload v d f now usr rq w)) = journal w @ [BlobWrite (fileName rq)]"
  using assms by (simp add: upload_def uploadData_def)

theorem upload_metadata_failure_keeps_blob_witness:
  "blob_fault db_down = None \<and> db_fault db_down 0 = Some ''Connection lost''
   \<and> fst (upload V3 example_deps db_down 100 example_creator example_upload empty_world)
        = (500, Error ''Connection lost'')
   \<and> db (snd (upload V3 example_deps db_down 100 example_creator example_upload empty_world)) = empty_db
   \<and> blobs (snd (upload V3 example_deps db_down 100 example_creator example_upload empty_world))
        ''clip.mp4'' = Some \<lparr>content = ''AAAA'', blobContentType = None\<rparr>
   \<and> journal (snd (upload V3 example_deps db_down 100 example_creator example_upload empty_world))
        = [BlobWrite ''clip.mp4'']"
proof -
  have h1: "blob_fault db_down = None" and h2: "db_fault db_down 0 = Some ''Connection lost''"
    by (simp_all add: db_down_def)
  show ?thesis
    using h1 h2
      upload_metadata_failure_keeps_blob [OF h1 h2, of V3 example_deps 100 example_creator
        example_upload empty_world]
    by (simp add: example_upload_def empty_world_def example_deps_def)
qed

text \<open>
  The claim that a failed upload leaves no blob without a \<^verbatim>\<open>Videos\<close> row does not hold:
  starting from empty stores, with the relational store unreachable, the upload answers
  500 and the blob \<^verbatim>\<open>clip.mp4\<close> is present while \<^verbatim>\<open>Videos\<close> is empty.
\<close>

theorem upload_orphan_counterexample:
  "fst (upload V1 example_deps db_down 100 example_creator example_upload empty_world)
     = (500, Error ''Connection lost'')
   \<and> blobs (snd (upload V1 example_deps db_down 100 example_creator example_upload empty_world))
        ''clip.mp4'' = Some \<lparr>content = ''AAAA'', blobContentType = Some ''video/mp4''\<rparr>
   \<and> Videos (db (snd (upload V1 example_deps db_down 100 example_creator example_upload empty_world))) = []"
  by (simp add: upload_def uploadData_def db_down_def example_upload_def empty_world_def
      empty_db_def example_deps_def)

text \<open>
  C6: the blob write runs before the metadata write, and when the blob write fails the
  metadata write does not run: the answer is 500 with the error's message and the state
  (the \<^verbatim>\<open>Videos\<close> table included) is unchanged. The effects of one upload are none (blob
  write failed), the blob write alone (insert failed), or the blob write followed by the
  insert.
\<close>

theorem upload_blob_before_metadata:
  "(blob_fault f = Some e \<longrightarrow> upload v d f now usr rq w = ((500, Error e), w))
   \<and> (journal (snd (upload v d f now usr rq w)) = journal w
        \<and> blob_fault f \<noteq> None \<and> fst (fst (upload v d f now usr rq w)) = 500
      \<or> journal (snd (upload v d f now usr rq w)) = journal w @ [BlobWrite (fileName rq)]
        \<and> blob_fault f = None \<and> fst (fst (upload v d f now usr rq w)) = 500
      \<or> journal (snd (upload v d f now usr rq w))
           = journal w @ [BlobWrite (fileName rq), InsertVideo (blob_url d (fileName rq))]
        \<and> blob_fault f = None \<and> fst (fst (upload v d f now usr rq w)) = 200)"
  by (cases "blob_fault f"; cases "db_fault f 0")
     (simp_all add: upload_def uploadData_def insert_video_def Let_def)

theorem upload_blob_before_metadata_witness:
  "blob_fault blob_down = Some ''Storage unavailable''
   \<and> upload V1 example_deps blob_down 100 example_creator example_upload empty_world
       = ((500, Error ''Storage unavailable''), empty_world)
   \<and> Videos (db (snd (upload V1 example_deps blob_down 100 example_creator example_upload empty_world))) = []"
proof -
  have h: "blob_fault blob_down = Some ''Storage unavailable''"
    by (simp add: blob_down_def)
  from upload_blob_before_metadata [of blob_down "''Storage unavailable''" V1 example_deps 100
      example_creator example_upload empty_world] h
  have "upload V1 example_deps blob_down 100 example_creator example_upload empty_world
       = ((500, Error ''Storage unavailable''), empty_world)"
    by blast
  with h show ?thesis by (simp add: empty_world_def empty_db_def)
qed

text \<open>
  C7: when both writes succeed, exactly one \<^verbatim>\<open>Videos\<close> row is added, its \<^verbatim>\<open>BlobURL\<close> is the
  locator of the blob client for the object, and the \<^verbatim>\<open>url\<close> field of the 200 response is
  that same locator.
\<close>

theorem upload_locator_exact:
  assumes "blob_fault f = None" and "db_fault f 0 = None"
  shows "fst (upload v d f now usr rq w)
           = (200, MessageUrl ''Video uploaded successfully'' (blob_url d (fileName rq)))
    \<and> (\<exists>row. Videos (db (snd (upload v d f now usr rq w))) = Videos (db w) @ [row]
          \<and> BlobURL row = blob_url d (fileName rq))"
  using assms by (simp add: upload_def uploadData_def insert_video_def Let_def)

theorem upload_locator_exact_witness:
  "blob_fault no_faults = None \<and> db_fault no_faults 0 = None
   \<and> fst (upload V1 example_deps no_faults 100 example_creator example_upload empty_world)
       = (200, MessageUrl ''Video uploaded successfully''
            ''https://echovid.blob.core.windows.net/videos/clip.mp4'')
   \<and> map BlobURL (Videos (db (snd (upload V1 example_deps no_faults 100 example_creator
         example_upload empty_world))))
       = [''https://echovid.blob.core.windows.net/videos/clip.mp4'']"
proof -
  have h1: "blob_fault no_faults = None" and h2: "db_fault no_faults 0 = None"
    by (simp_all add: no_faults_def)
  from upload_locator_exact [OF h1 h2, of V1 example_deps 100 example_creator example_upload
      empty_world]
  show ?thesis
    using h1 h2
    by (auto simp add: example_upload_def empty_world_def empty_db_def example_deps_def)
qed

section \<open>The access guard\<close>

text \<open>
  C2: without an authorization header (absent or empty) the guard answers 401; when the
  header has no second word or \<^verbatim>\<open>jwt.verify\<close> rejects it, the guard answers 401; when a
  required role is given and the validated role differs, it answers 403; otherwise it
  passes the decoded payload on. For \<^verbatim>\<open>auth("Creator")\<close> a validated \<open>Consumer\<close> token
  gets 403 and a validated \<open>Creator\<close> token reaches the upload handler with its payload.
  Whenever the guard of \<^verbatim>\<open>/upload\<close> answers by itself, the answer is a 401 or a 403 and
  the handler has not run: the state is unchanged.
\<close>

theorem auth_guard:
  "(header = None \<or> header = Some [] \<longrightarrow>
      auth d requiredRole now header = Respond (401, Error ''No token''))
   \<and> (header = Some h \<and> h \<noteq> [] \<and>
        (index (split_on (CHR '' '') h) 1 = None
         \<or> (\<exists>t. index (split_on (CHR '' '') h) 1 = Some t \<and> jwt_verify d t JWT_SECRET now = None)) \<longrightarrow>
      auth d requiredRole now header = Respond (401, Error ''Invalid token''))
   \<and> (header = Some h \<and> h \<noteq> [] \<and> index (split_on (CHR '' '') h) 1 = Some t
        \<and> jwt_verify d t JWT_SECRET now = Some decoded \<longrightarrow>
        (r \<noteq> [] \<and> p_role decoded \<noteq> r \<longrightarrow>
           auth d (Some r) now header = Respond (403, Error ''Forbidden''))
        \<and> (p_role decoded = r \<longrightarrow> auth d (Some r) now header = Next decoded)
        \<and> auth d None now header = Next decoded
        \<and> (p_role decoded = ''Consumer'' \<longrightarrow>
             auth d (Some ''Creator'') now header = Respond (403, Error ''Forbidden''))
        \<and> (p_role decoded = ''Creator'' \<longrightarrow>
             auth d (Some ''Creator'') now header = Next decoded
             \<and> post_upload v d f now header rq w = upload v d f now decoded rq w))
   \<and> (auth d (Some ''Creator'') now header = Respond resp \<longrightarrow>
        post_upload v d f now header rq w = (resp, w) \<and> (fst resp = 401 \<or> fst resp = 403))"
  by (auto simp add: auth_def post_upload_def split: option.splits if_splits)

theorem auth_guard_witness:
  "auth example_deps (Some ''Creator'') 50 None = Respond (401, Error ''No token'')
   \<and> auth example_deps (Some ''Creator'') 50 (Some ''Bearer forged'') = Respond (401, Error ''Invalid token'')
   \<and> auth example_deps (Some ''Creator'') 50 (Some ''Bearer Consumer.supersecretkey'')
       = Respond (403, Error ''Forbidden'')
   \<and> auth example_deps (Some ''Creator'') 50 (Some ''Bearer Creator.supersecretkey'')
       = Next example_creator
   \<and> post_upload V1 example_deps no_faults 50 (Some ''Bearer Consumer.supersecretkey'')
        example_upload empty_world = ((403, Error ''Forbidden''), empty_world)"
proof -
  have s1: "index (split_on (CHR '' '') ''Bearer forged'') 1 = Some ''forged''"
    and s2: "index (split_on (CHR '' '') ''Bearer Consumer.supersecretkey'') 1
               = Some ''Consumer.supersecretkey''"
    and s3: "index (split_on (CHR '' '') ''Bearer Creator.supersecretkey'') 1
               = Some ''Creator.supersecretkey''"
    by (simp_all add: index_def)
  have v1: "jwt_verify example_deps ''forged'' JWT_SECRET 50 = None"
    and v2: "jwt_verify example_deps ''Consumer.supersecretkey'' JWT_SECRET 50
               = Some \<lparr>p_id = 2, p_role = ''Consumer'', iat = 0, exp = 3600\<rparr>"
    and v3: "jwt_verify example_deps ''Creator.supersecretkey'' JWT_SECRET 50 = Some example_creator"
    by (simp_all add: example_deps_def JWT_SECRET_def example_creator_def)
  have a: "auth example_deps (Some ''Creator'') 50 None = Respond (401, Error ''No token'')"
    using auth_guard [of None example_deps "Some ''Creator''" 50] by simp
  have b: "auth example_deps (Some ''Creator'') 50 (Some ''Bearer forged'')
             = Respond (401, Error ''Invalid token'')"
    using auth_guard [of "Some ''Bearer forged''" example_deps "Some ''Creator''" 50
        "''Bearer forged''"] s1 v1 by simp
  have c: "auth example_deps (Some ''Creator'') 50 (Some ''Bearer Consumer.supersecretkey'')
             = Respond (403, Error ''Forbidden'')"
    using auth_guard [of "Some ''Bearer Consumer.supersecretkey''" example_deps
        "Some ''Creator''" 50 "''Bearer Consumer.supersecretkey''" "''Consumer.supersecretkey''"
        "\<lparr>p_id = 2, p_role = ''Consumer'', iat = 0, exp = 3600\<rparr>"] s2 v2 by simp
  have e: "auth example_deps (Some ''Creator'') 50 (Some ''Bearer Creator.supersecretkey'')
             = Next example_creator"
    using auth_guard [of "Some ''Bearer Creator.supersecretkey''" example_deps
        "Some ''Creator''" 50 "''Bearer Creator.supersecretkey''" "''Creator.supersecretkey''"
        example_creator] s3 v3 by (simp add: example_creator_def)
  have g: "post_upload V1 example_deps no_faults 50 (Some ''Bearer Consumer.supersecretkey'')
        example_upload empty_world = ((403, Error ''Forbidden''), empty_world)"
    using auth_guard [of "Some ''Bearer Consumer.supersecretkey''" example_deps
        "Some ''Creator''" 50 _ _ _ _ _ _ _ _ "(403, Error ''Forbidden'')"] c by simp
  from a b c e g show ?thesis by simp
qed

section \<open>Login and signup\<close>




text \<open>
  C4 at \<open>V2\<close> (lines 278-293), which inserts without looking the email up: a second
  signup with an email already registered answers 200 and stores a second row with the
  same email.
\<close>

theorem signup_duplicate_v2:
  "signup V2 example_deps no_faults 6 ''Bob'' ''ann@example.com'' ''pw2''
     (snd (signup V2 example_deps no_faults 5 ''Ann'' ''ann@example.com'' ''pw1'' empty_db))
   = ((200, Message ''Consumer registered successfully''),
      empty_db\<lparr>Users :=
        [\<lparr>UserID = 1, Name = ''Ann'', Email = ''ann@example.com'',
          PasswordHash = ''$2a$10$pw1'', Role = ''Consumer'', CreatedAt = None\<rparr>,
         \<lparr>UserID = 2, Name = ''Bob'', Email = ''ann@example.com'',
          PasswordHash = ''$2a$10$pw2'', Role = ''Consumer'', CreatedAt = None\<rparr>]\<rparr>)"
  by (simp add: signup_def no_faults_def insert_user_def next_identity_def empty_db_def
      example_deps_def)

text \<open>
  \<open>V1\<close> and \<open>V3\<close> do look the email up: when the store finds a stored email equal to the
  lower-cased request email under the case-insensitive collation, signup answers 400 and
  changes nothing; otherwise it adds one row with role \<open>Consumer\<close> and the lower-cased
  email.
\<close>

lemma signup_checked:
  assumes "v \<noteq> V2" and "db_fault f 0 = None" and "db_fault f 1 = None"
  shows "((\<exists>u \<in> set (Users dbs). email_ci_eq d (Email u) (toLowerCase email)) \<longrightarrow>
            signup v d f now name email password dbs
              = ((400, Error ''Email already registered''), dbs))
    \<and> (\<not> (\<exists>u \<in> set (Users dbs). email_ci_eq d (Email u) (toLowerCase email)) \<longrightarrow>
          (\<exists>u. signup v d f now name email password dbs
                  = ((200, Message ''Consumer registered successfully''),
                     dbs\<lparr>Users := Users dbs @ [u]\<rparr>)
               \<and> Role u = ''Consumer'' \<and> Email u = toLowerCase email))"
proof -
  let ?rows = "filter (\<lambda>u. email_ci_eq d (Email u) (toLowerCase email)) (Users dbs)"
  have "?rows \<noteq> [] \<longleftrightarrow> (\<exists>u \<in> set (Users dbs). email_ci_eq d (Email u) (toLowerCase email))"
    by (simp add: filter_empty_conv)
  then show ?thesis
    using assms by (auto simp add: signup_def insert_user_def)
qed

section \<open>Ratings and listings\<close>

text \<open>
  C8, for a \<^verbatim>\<open>videoId\<close> within the range of \<^verbatim>\<open>sql.Int\<close> and when the store answers:
  \<^verbatim>\<open>/getRatings\<close> answers 200 with \<^verbatim>\<open>TotalRatings\<close> the number of rating rows of the video
  (every row counts, whoever wrote it) and, when there is at least one, \<^verbatim>\<open>AvgRating\<close> the
  sum of their ratings divided by their number; ratings 3 and 5 give 4 and 2.
\<close>

theorem getRatings_average:
  assumes "db_fault f 0 = None" and "INT_MIN \<le> videoId" and "videoId \<le> INT_MAX"
    and "rows = filter (\<lambda>r. r_VideoID r = videoId) (Ratings dbs)"
  shows "\<exists>a. getRatings d f videoId dbs = (200, RatingRow a (length rows))
    \<and> (rows \<noteq> [] \<longrightarrow>
          a = Some (of_int (sum_list (map Rating rows)) / of_nat (length rows)))
    \<and> (map Rating rows = [3, 5] \<longrightarrow> a = Some 4 \<and> length rows = 2)"
proof -
  have g: "getRatings d f videoId dbs
      = (200, RatingRow (sql_avg (map Rating rows)) (length rows))"
    using assms by (simp add: getRatings_def ratings_of_def sql_Int_def)
  have a: "sql_avg (map Rating rows)
      = Some (of_int (sum_list (map Rating rows)) / of_nat (length rows))" if "rows \<noteq> []"
    using that by (simp add: sql_avg_def)
  have p: "sql_avg (map Rating rows) = Some 4 \<and> length rows = 2" if "map Rating rows = [3, 5]"
  proof -
    from that have "length (map Rating rows) = 2" by simp
    then have "length rows = 2" by simp
    moreover from that have "sql_avg (map Rating rows) = Some 4" by (simp add: sql_avg_def)
    ultimately show ?thesis by simp
  qed
  from g a p show ?thesis by blast
qed

theorem getRatings_average_witness:
  "db_fault no_faults 0 = None \<and> INT_MIN \<le> 1 \<and> 1 \<le> INT_MAX
   \<and> map Rating (filter (\<lambda>r. r_VideoID r = 1)
        (Ratings (snd (rate V1 example_deps no_faults 20 example_consumer 1 5
          (snd (rate V1 example_deps no_faults 10 example_consumer 1 3 empty_db))))))
       = [3, 5]
   \<and> getRatings example_deps no_faults 1
        (snd (rate V1 example_deps no_faults 20 example_consumer 1 5
          (snd (rate V1 example_deps no_faults 10 example_consumer 1 3 empty_db))))
       = (200, RatingRow (Some 4) 2)"
proof -
  let ?db = "snd (rate V1 example_deps no_faults 20 example_consumer 1 5
          (snd (rate V1 example_deps no_faults 10 example_consumer 1 3 empty_db)))"
  have h: "db_fault no_faults 0 = None" by (simp add: no_faults_def)
  have r1: "INT_MIN \<le> 1" and r2: "1 \<le> INT_MAX" by (simp_all add: INT_MIN_def INT_MAX_def)
  have rs: "map Rating (filter (\<lambda>r. r_VideoID r = 1) (Ratings ?db)) = [3, 5]"
    using h by (simp add: rate_def sql_Int_def INT_MIN_def INT_MAX_def empty_db_def)
  from getRatings_average [OF h r1 r2 refl, where dbs = ?db and d = example_deps] rs
  have "getRatings example_deps no_faults 1 ?db = (200, RatingRow (Some 4) 2)"
    by auto
  with h r1 r2 rs show ?thesis by simp
qed

text \<open>
  The same for every \<^verbatim>\<open>videoId\<close> does not hold: the identifier -2147483649 has no rating
  rows, and the handler answers 500 with the driver's error instead of a count of 0.
\<close>

theorem getRatings_average_counterexample:
  "filter (\<lambda>r. r_VideoID r = - 2147483649) (Ratings example_ratings) = []
   \<and> getRatings example_deps no_faults (- 2147483649) example_ratings
       = (500, Error ''Validation failed for parameter VideoID'')"
  by (simp add: getRatings_def sql_Int_def INT_MIN_def INT_MAX_def no_faults_def
      example_ratings_def empty_db_def example_deps_def)




text \<open>
  C10, for a \<^verbatim>\<open>videoId\<close> within the range of \<^verbatim>\<open>sql.Int\<close> and when the store answers: for
  a video without rating rows, \<^verbatim>\<open>/getRatings\<close> answers 200 with \<^verbatim>\<open>TotalRatings\<close> 0 and
  \<^verbatim>\<open>AvgRating\<close> null.
\<close>

theorem getRatings_no_rows:
  assumes "db_fault f 0 = None" and "INT_MIN \<le> videoId" and "videoId \<le> INT_MAX"
    and "filter (\<lambda>r. r_VideoID r = videoId) (Ratings dbs) = []"
  shows "getRatings d f videoId dbs = (200, RatingRow None 0)"
  using assms by (simp add: getRatings_def ratings_of_def sql_Int_def sql_avg_def)

theorem getRatings_no_rows_witness:
  "db_fault no_faults 0 = None \<and> INT_MIN \<le> 7 \<and> 7 \<le> INT_MAX
   \<and> filter (\<lambda>r. r_VideoID r = 7) (Ratings example_ratings) = []
   \<and> getRatings example_deps no_faults 7 example_ratings = (200, RatingRow None 0)"
proof -
  have h1: "db_fault no_faults 0 = None" by (simp add: no_faults_def)
  have r1: "INT_MIN \<le> 7" and r2: "7 \<le> INT_MAX" by (simp_all add: INT_MIN_def INT_MAX_def)
  have h2: "filter (\<lambda>r. r_VideoID r = 7) (Ratings example_ratings) = []"
    by (simp add: example_ratings_def)
  from getRatings_no_rows [OF h1 r1 r2 h2, where d = example_deps] h1 r1 r2 h2 show ?thesis by simp
qed

text \<open>
  The same for every \<^verbatim>\<open>videoId\<close> without rating rows does not hold: for the identifier
  2147483648 the handler answers 500 with the driver's error.
\<close>

theorem getRatings_no_rows_counterexample:
  "filter (\<lambda>r. r_VideoID r = 2147483648) (Ratings example_ratings) = []
   \<and> getRatings example_deps no_faults 2147483648 example_ratings
       = (500, Error ''Validation failed for parameter VideoID'')"
  by (simp add: getRatings_def sql_Int_def INT_MIN_def INT_MAX_def no_faults_def
      example_ratings_def empty_db_def example_deps_def)

end
